theory Spec2Isabelle
  imports Complex_Main "HOL-Library.Stream"
begin

section \<open>The farmers payment module: store, submission, settlement, notification\<close>

text \<open>
  A shallow embedding of \<^verbatim>\<open>src/app.py\<close>. The SQLite database is a record of
  five tables, each a list of rows in insertion (rowid) order. Every callback that opens
  a connection takes the database and returns the database as it is on disk when the
  callback ends: what was committed, and nothing of a transaction that was rolled back.
  Python exceptions are values of \<open>py_error\<close>. Amounts are whole shillings
  (\<open>int\<close>); the rounding of the REAL columns is not modelled. Timestamps are clock
  readings passed in as naturals.
\<close>

subsection \<open>Tables\<close>

record user_row =
  u_id :: nat
  u_username :: string
  u_password :: string
  u_role :: string
  u_cooperative_name :: string

record batch_row =
  b_id :: nat
  b_cooperative_id :: nat
  b_filename :: string
  b_record_count :: nat
  b_total_amount :: int
  b_submission_timestamp :: nat
  b_status :: string
  b_admin_notes :: "string option"
  b_cooperative_notes :: "string option"

record payment_row =
  p_id :: nat
  p_batch_id :: nat
  p_farmer_name :: string
  p_bank_name :: string
  p_account_number :: string
  p_amount :: int
  p_status :: string
  p_failure_reason :: "string option"

record history_row =
  h_id :: nat
  h_batch_id :: nat
  h_cooperative_name :: string
  h_filename :: string
  h_record_count :: nat
  h_total_amount :: int
  h_processing_timestamp :: nat

record log_row =
  l_id :: nat
  l_timestamp :: nat
  l_user_id :: nat
  l_cooperative_name :: string
  l_action :: string
  l_details :: string

record db =
  users :: "user_row list"
  submission_batches :: "batch_row list"
  farmer_payments :: "payment_row list"
  payment_history :: "history_row list"
  activity_logs :: "log_row list"

datatype py_error = IntegrityError | OperationalError | TypeError | IndexError

text \<open>\<^verbatim>\<open>INTEGER PRIMARY KEY AUTOINCREMENT\<close>: one more than the largest id in use; no row
  is ever deleted, so that is also the largest id ever used.\<close>

definition next_id :: "nat list \<Rightarrow> nat" where
  "next_id ids = Suc (fold max ids 0)"

text \<open>\<^verbatim>\<open>cursor.fetchone()\<close>: the first row of the result, or \<^verbatim>\<open>None\<close>.\<close>

definition fetchone :: "'a list \<Rightarrow> 'a option" where
  "fetchone rows = (case rows of [] \<Rightarrow> None | r # _ \<Rightarrow> Some r)"

subsection \<open>Formatting\<close>

definition digit_char :: "nat \<Rightarrow> char" where
  "digit_char n = ''0123456789'' ! n"

text \<open>\<^verbatim>\<open>str(n)\<close> of a non-negative integer, as an f-string prints it.\<close>

fun str_nat :: "nat \<Rightarrow> string" where
  "str_nat n = (if n < 10 then [digit_char n] else str_nat (n div 10) @ [digit_char (n mod 10)])"

declare str_nat.simps [simp del]

subsection \<open>Callback plumbing\<close>

text \<open>\<^verbatim>\<open>dash.no_update\<close> or a new value for an output.\<close>

datatype 'a upd = no_update | Set 'a

record session =
  s_id :: nat
  s_username :: string
  s_role :: string
  s_cooperative_name :: string

text \<open>A click counter as Dash delivers it: \<^verbatim>\<open>None\<close> before the first click.\<close>

definition truthy :: "nat option \<Rightarrow> bool" where
  "truthy n = (case n of None \<Rightarrow> False | Some k \<Rightarrow> 0 < k)"

subsection \<open>\<^verbatim>\<open>log_activity\<close>\<close>

text \<open>Opens its own connection. \<^verbatim>\<open>cursor.fetchone()[0]\<close> raises \<^verbatim>\<open>TypeError\<close> when the
  user id is unknown, before anything is inserted.\<close>

definition log_activity :: "nat \<Rightarrow> nat \<Rightarrow> string \<Rightarrow> string \<Rightarrow> db \<Rightarrow> py_error + db" where
  "log_activity now user_id action details d =
     (case fetchone [u_cooperative_name u. u \<leftarrow> users d, u_id u = user_id] of
        None \<Rightarrow> Inl TypeError
      | Some cooperative_name \<Rightarrow>
          Inr (d\<lparr>activity_logs := activity_logs d @
                 [\<lparr>l_id = next_id (map l_id (activity_logs d)), l_timestamp = now,
                   l_user_id = user_id, l_cooperative_name = cooperative_name,
                   l_action = action, l_details = details\<rparr>]\<rparr>))"

subsection \<open>\<^verbatim>\<open>show_ipn_toast\<close>\<close>

text \<open>The dictionary that \<^verbatim>\<open>handle_payment_processing\<close> stores in \<^verbatim>\<open>ipn-data-store\<close>,
  with keys \<^verbatim>\<open>coop, success, failed, total\<close>.\<close>

record ipn =
  ipn_coop :: string
  ipn_success :: nat
  ipn_failed :: nat
  ipn_total :: nat

text \<open>The store holds \<^verbatim>\<open>None\<close> until a batch has been processed; the callback then
  returns a closed toast. The four outputs are \<^verbatim>\<open>is_open, header, children, icon\<close>.\<close>

definition show_ipn_toast :: "ipn option \<Rightarrow> bool \<times> string \<times> string \<times> string" where
  "show_ipn_toast data =
     (case data of
        None \<Rightarrow> (False, '''', '''', '''')
      | Some dt \<Rightarrow>
          (let header = ''IPN: Transaction Complete'';
               icon = (if ipn_failed dt > 0 then ''warning'' else ''success'');
               body = ipn_coop dt @ '': Paid '' @ str_nat (ipn_success dt) @ ''/'' @ str_nat (ipn_total dt)
                      @ '' farmers. ('' @ str_nat (ipn_failed dt) @ '' failed)''
           in (True, header, body, icon)))"

subsection \<open>\<^verbatim>\<open>submit_to_admin\<close>\<close>

text \<open>A row of the editable table as the browser sends it. A cell is \<^verbatim>\<open>None\<close> when it
  is empty in the uploaded file (pandas reads it as NaN and writes it as NULL).\<close>

record table_row =
  t_farmer_name :: "string option"
  t_bank_name :: "string option"
  t_account_number :: "string option"
  t_amount :: "int option"

text \<open>\<^verbatim>\<open>df['amount'].sum()\<close> skips missing cells.\<close>

definition amount_sum :: "table_row list \<Rightarrow> int" where
  "amount_sum table_data = sum_list (map (\<lambda>r. case t_amount r of None \<Rightarrow> 0 | Some a \<Rightarrow> a) table_data)"

text \<open>What the storage layer may do to the transaction of \<^verbatim>\<open>submit_to_admin\<close>, besides
  enforcing the NOT NULL columns: nothing, or raise at the INSERT of the batch row, or
  raise at the INSERT of the line-item row with the given index.\<close>

datatype storage_fault = No_fault | Fault_batch_insert | Fault_item_insert nat

text \<open>The INSERT into \<^verbatim>\<open>submission_batches\<close>; the new id is \<^verbatim>\<open>cursor.lastrowid\<close>.\<close>

definition insert_batch ::
  "storage_fault \<Rightarrow> nat \<Rightarrow> string \<Rightarrow> nat \<Rightarrow> int \<Rightarrow> nat \<Rightarrow> string option \<Rightarrow> batch_row list
   \<Rightarrow> py_error + (nat \<times> batch_row list)" where
  "insert_batch fault cooperative_id filename record_count total_amount now cooperative_notes tbl =
     (if fault = Fault_batch_insert then Inl OperationalError
      else let lastrowid = next_id (map b_id tbl)
           in Inr (lastrowid,
                   tbl @ [\<lparr>b_id = lastrowid, b_cooperative_id = cooperative_id,
                           b_filename = filename, b_record_count = record_count,
                           b_total_amount = total_amount, b_submission_timestamp = now,
                           b_status = ''pending_approval'', b_admin_notes = None,
                           b_cooperative_notes = cooperative_notes\<rparr>]))"

text \<open>\<^verbatim>\<open>df_to_db.to_sql('farmer_payments', conn, if_exists='append', index=False)\<close>: one
  INSERT per row, in order, of the four data columns and \<^verbatim>\<open>batch_id\<close>. The columns
  \<^verbatim>\<open>status\<close> and \<^verbatim>\<open>failure_reason\<close> take their defaults, \<^verbatim>\<open>'pending'\<close> and NULL. A
  missing cell violates NOT NULL and raises \<^verbatim>\<open>IntegrityError\<close>. The counter \<open>k\<close> is the
  index of the row being inserted.\<close>

fun to_sql ::
  "storage_fault \<Rightarrow> nat \<Rightarrow> nat \<Rightarrow> table_row list \<Rightarrow> payment_row list \<Rightarrow> py_error + payment_row list" where
  "to_sql fault batch_id k [] tbl = Inr tbl"
| "to_sql fault batch_id k (r # rs) tbl =
     (if fault = Fault_item_insert k then Inl OperationalError
      else case (t_farmer_name r, t_bank_name r, t_account_number r, t_amount r) of
             (Some farmer_name, Some bank_name, Some account_number, Some amount) \<Rightarrow>
               to_sql fault batch_id (Suc k) rs
                 (tbl @ [\<lparr>p_id = next_id (map p_id tbl), p_batch_id = batch_id,
                          p_farmer_name = farmer_name, p_bank_name = bank_name,
                          p_account_number = account_number, p_amount = amount,
                          p_status = ''pending'', p_failure_reason = None\<rparr>])
           | _ \<Rightarrow> Inl IntegrityError)"

declare to_sql.simps [simp del]

text \<open>The body of the \<^verbatim>\<open>try\<close> up to and including \<^verbatim>\<open>conn.commit()\<close>: the working copy
  of the connection. \<open>Inr\<close> is the committed database; \<open>Inl\<close> is the exception that
  reaches the \<^verbatim>\<open>except\<close> clause.\<close>

definition submit_transaction ::
  "storage_fault \<Rightarrow> nat \<Rightarrow> nat \<Rightarrow> string \<Rightarrow> table_row list \<Rightarrow> string option \<Rightarrow> db \<Rightarrow> py_error + db" where
  "submit_transaction fault now cooperative_id filename table_data coop_note d =
     (case insert_batch fault cooperative_id filename (length table_data) (amount_sum table_data)
             now coop_note (submission_batches d) of
        Inl e \<Rightarrow> Inl e
      | Inr (batch_id, batches) \<Rightarrow>
          (case to_sql fault batch_id 0 table_data (farmer_payments d) of
             Inl e \<Rightarrow> Inl e
           | Inr payments \<Rightarrow>
               Inr (d\<lparr>submission_batches := batches, farmer_payments := payments\<rparr>)))"

text \<open>The alert text: a literal or formatted string, or \<^verbatim>\<open>f"Database error: {e}"\<close>.\<close>

datatype message = Text string | Database_error py_error

text \<open>The five outputs: alert text, alert open, alert colour, the cleared table
  placeholder, and the submission trigger (the time of submission).\<close>

type_synonym submit_outputs = "message \<times> bool \<times> string \<times> unit upd \<times> nat upd"

text \<open>\<^verbatim>\<open>submission_data_store.get('filename', 'uploaded_file')\<close>: the stored filename is
  an option. On an exception the \<^verbatim>\<open>except\<close> clause rolls the connection back, so the
  database on disk is the last committed one: the initial one when the transaction
  raised, the one with the submission when only \<^verbatim>\<open>log_activity\<close> raised.\<close>

definition submit_to_admin ::
  "storage_fault \<Rightarrow> nat \<Rightarrow> nat option \<Rightarrow> table_row list \<Rightarrow> string option \<Rightarrow> session \<Rightarrow> string option
   \<Rightarrow> db \<Rightarrow> submit_outputs \<times> db" where
  "submit_to_admin fault now n_clicks table_data stored_filename session_data coop_note d =
     (if \<not> truthy n_clicks \<or> table_data = [] then ((Text '''', False, '''', no_update, no_update), d)
      else
        let filename = (case stored_filename of None \<Rightarrow> ''uploaded_file'' | Some f \<Rightarrow> f)
        in case submit_transaction fault now (s_id session_data) filename table_data coop_note d of
             Inl e \<Rightarrow> ((Database_error e, True, ''danger'', no_update, no_update), d)
           | Inr d1 \<Rightarrow>
               (case log_activity now (s_id session_data) ''Data Submission''
                       (''Submitted '' @ [CHR 0x27] @ filename @ [CHR 0x27] @ '' with ''
                          @ str_nat (length table_data) @ '' records.'') d1 of
                  Inl e \<Rightarrow> ((Database_error e, True, ''danger'', no_update, no_update), d1)
                | Inr d2 \<Rightarrow>
                    ((Text (''Successfully submitted '' @ str_nat (length table_data) @ '' records.''),
                      True, ''success'', Set (), Set now), d2)))"

subsection \<open>\<^verbatim>\<open>render_admin_dashboard\<close>\<close>





subsection \<open>\<^verbatim>\<open>save_admin_note\<close>\<close>

text \<open>\<open>batch_id\<close> is the index of the button that fired; \<open>notes\<close> are the values of the
  note text areas on the page. \<^verbatim>\<open>notes[0]\<close> is read before the \<^verbatim>\<open>try\<close>, so an empty
  list raises \<^verbatim>\<open>IndexError\<close> out of the callback.\<close>

definition save_admin_note ::
  "nat option list \<Rightarrow> nat \<Rightarrow> string list \<Rightarrow> db \<Rightarrow> (py_error + bool \<times> string \<times> string) \<times> db" where
  "save_admin_note n_clicks batch_id notes d =
     (if \<not> list_ex truthy n_clicks then (Inr (False, '''', ''''), d)
      else case notes of
             [] \<Rightarrow> (Inl IndexError, d)
           | note_value # _ \<Rightarrow>
               (Inr (True, ''Response saved successfully!'', ''success''),
                d\<lparr>submission_batches :=
                    map (\<lambda>b. if b_id b = batch_id then b\<lparr>b_admin_notes := Some note_value\<rparr> else b)
                        (submission_batches d)\<rparr>))"

subsection \<open>The random module\<close>

text \<open>The generator is the stream of the values it will produce; each call consumes
  one. \<^verbatim>\<open>random.random()\<close> is a multiple of \<open>2\<^sup>-\<^sup>5\<^sup>3\<close> in \<open>[0, 1)\<close>. \<^verbatim>\<open>random.choice\<close>
  is only called on the three reasons, never on an empty list.\<close>

type_synonym rng = "nat stream"

definition random_random :: "rng \<Rightarrow> rat \<times> rng" where
  "random_random g = (of_nat (shd g mod 2 ^ 53) / 2 ^ 53, stl g)"

definition random_choice :: "'a list \<Rightarrow> rng \<Rightarrow> 'a \<times> rng" where
  "random_choice seq g = (seq ! (shd g mod length seq), stl g)"

text \<open>The literal \<^verbatim>\<open>0.95\<close> as the double it denotes.\<close>

definition p_success :: rat where
  "p_success = 4278419646001971 / 4503599627370496"

definition reasons :: "string list" where
  "reasons = [''Invalid Account'', ''Bank Error'', ''Name Mismatch'']"

subsection \<open>\<^verbatim>\<open>handle_payment_processing\<close>\<close>

text \<open>A parameter tuple of the \<^verbatim>\<open>executemany\<close>: status, failure reason, payment id.\<close>

type_synonym payment_update = "string \<times> string option \<times> nat"

text \<open>The loop over the fetched payment ids, with its three accumulators.\<close>

fun settle_loop ::
  "nat list \<Rightarrow> rng \<Rightarrow> payment_update list \<times> nat \<times> nat \<Rightarrow> (payment_update list \<times> nat \<times> nat) \<times> rng" where
  "settle_loop [] g acc = (acc, g)"
| "settle_loop (pid # pids) g (payments, success, failed) =
     (let (u, g1) = random_random g
      in if u < p_success
         then settle_loop pids g1 (payments @ [(''paid'', None, pid)], success + 1, failed)
         else let (reason, g2) = random_choice reasons g1
              in settle_loop pids g2 (payments @ [(''failed'', Some reason, pid)], success, failed + 1))"

text \<open>\<^verbatim>\<open>UPDATE farmer_payments SET status = ?, failure_reason = ? WHERE id = ?\<close>, once per
  parameter tuple, in order.\<close>

fun executemany_update :: "payment_update list \<Rightarrow> payment_row list \<Rightarrow> payment_row list" where
  "executemany_update [] tbl = tbl"
| "executemany_update ((st, reason, pid) # ps) tbl =
     executemany_update ps
       (map (\<lambda>p. if p_id p = pid then p\<lparr>p_status := st, p_failure_reason := reason\<rparr> else p) tbl)"

text \<open>The join that reads \<^verbatim>\<open>batch_info\<close>.\<close>

definition batch_info_query :: "nat \<Rightarrow> db \<Rightarrow> (string \<times> string \<times> nat \<times> int) option" where
  "batch_info_query batch_id d =
     fetchone [(u_cooperative_name u, b_filename b, b_record_count b, b_total_amount b).
               b \<leftarrow> submission_batches d, u \<leftarrow> users d,
               b_cooperative_id b = u_id u, b_id b = batch_id]"

text \<open>\<^verbatim>\<open>SELECT id FROM farmer_payments WHERE batch_id = ?\<close>: no filter on the status and
  no ORDER BY; the rows come in table order.\<close>

definition payment_ids_query :: "nat \<Rightarrow> db \<Rightarrow> nat list" where
  "payment_ids_query batch_id d = [p_id p. p \<leftarrow> farmer_payments d, p_batch_id p = batch_id]"

text \<open>The last branch of the interval case (\<^verbatim>\<open>n_intervals >= 4\<close>): everything up to
  \<^verbatim>\<open>conn.commit()\<close> is one transaction with no handler, and nothing in it raises. After
  the commit, formatting the log line from a \<^verbatim>\<open>batch_info\<close> of \<^verbatim>\<open>None\<close> raises
  \<^verbatim>\<open>TypeError\<close>, as \<^verbatim>\<open>log_activity\<close> may; the exception leaves the callback and the
  committed database stays.\<close>

definition process_payment ::
  "nat \<Rightarrow> nat \<Rightarrow> session \<Rightarrow> rng \<Rightarrow> db \<Rightarrow> (py_error + ipn) \<times> rng \<times> db" where
  "process_payment now batch_id session_data g d =
     (let batch_info = batch_info_query batch_id d;
          batches = map (\<lambda>b. if b_id b = batch_id then b\<lparr>b_status := ''processed''\<rparr> else b)
                        (submission_batches d);
          pids = payment_ids_query batch_id d;
          ((payments, success, failed), g') = settle_loop pids g ([], 0, 0);
          payments_tbl = executemany_update payments (farmer_payments d);
          history =
            (case batch_info of
               None \<Rightarrow> payment_history d
             | Some (coop_name, filename, record_count, total_amount) \<Rightarrow>
                 payment_history d @
                 [\<lparr>h_id = next_id (map h_id (payment_history d)), h_batch_id = batch_id,
                   h_cooperative_name = coop_name, h_filename = filename,
                   h_record_count = record_count, h_total_amount = total_amount,
                   h_processing_timestamp = now\<rparr>]);
          d1 = d\<lparr>submission_batches := batches, farmer_payments := payments_tbl,
                 payment_history := history\<rparr>
      in case batch_info of
           None \<Rightarrow> (Inl TypeError, g', d1)
         | Some (coop_name, filename, record_count, total_amount) \<Rightarrow>
             (case log_activity now (s_id session_data) ''Payment Processed''
                     (''Processed '' @ [CHR 0x27] @ filename @ [CHR 0x27] @ '' for '' @ coop_name
                        @ ''. Success: '' @ str_nat success @ '', Failed: '' @ str_nat failed @ ''.'') d1 of
                Inl e \<Rightarrow> (Inl e, g', d1)
              | Inr d2 \<Rightarrow>
                  (Inr \<lparr>ipn_coop = coop_name, ipn_success = success, ipn_failed = failed,
                        ipn_total = record_count\<rparr>, g', d2)))"

text \<open>What fired the callback, \<^verbatim>\<open>ctx.triggered[0]\<close>: a \<^verbatim>\<open>Pay Now\<close> button with its index
  and click count, the interval, the close button, or something else.\<close>

datatype trigger = Pay_now_btn nat "nat option" | Payment_interval | Payment_close_button | Other_trigger

datatype animation = Initiating | Processing nat | Payment_processed | Blank

text \<open>The six outputs: modal open, interval disabled, animation, close button disabled,
  \<^verbatim>\<open>batch-to-process\<close> and \<^verbatim>\<open>ipn-data-store\<close>.\<close>

type_synonym payment_outputs =
  "bool upd \<times> bool upd \<times> animation upd \<times> bool upd \<times> nat option upd \<times> ipn upd"

definition no_updates :: payment_outputs where
  "no_updates = (no_update, no_update, no_update, no_update, no_update, no_update)"

definition handle_payment_processing ::
  "nat \<Rightarrow> trigger option \<Rightarrow> nat \<Rightarrow> nat option \<Rightarrow> session \<Rightarrow> rng \<Rightarrow> db
   \<Rightarrow> (py_error + payment_outputs) \<times> rng \<times> db" where
  "handle_payment_processing now triggered n_intervals batch_id session_data g d =
     (case triggered of
        None \<Rightarrow> (Inr no_updates, g, d)
      | Some t \<Rightarrow>
          (case (t, batch_id) of
             (Pay_now_btn new_batch_id (Some v), _) \<Rightarrow>
               (Inr (Set True, Set False, Set Initiating, Set True, Set (Some new_batch_id), no_update), g, d)
           | (Payment_interval, Some bid) \<Rightarrow>
               if n_intervals < 4
               then (Inr (Set True, Set False, Set (Processing ((n_intervals + 1) * 25)), Set True,
                          Set (Some bid), no_update), g, d)
               else (case process_payment now bid session_data g d of
                       (Inl e, g', d') \<Rightarrow> (Inl e, g', d')
                     | (Inr ipn, g', d') \<Rightarrow>
                         (Inr (Set True, Set True, Set Payment_processed, Set False, Set None, Set ipn),
                          g', d'))
           | (Payment_close_button, _) \<Rightarrow>
               (Inr (Set False, Set True, Set Blank, Set True, Set None, no_update), g, d)
           | _ \<Rightarrow> (Inr no_updates, g, d)))"

subsection \<open>Notions used in the statements\<close>

text \<open>The net effect of the parameter tuples of an \<^verbatim>\<open>executemany\<close> on one row: the last
  tuple that names the row's id decides.\<close>

definition row_update :: "payment_update list \<Rightarrow> payment_row \<Rightarrow> payment_row" where
  "row_update ps p =
     (case find (\<lambda>(st, reason, pid). pid = p_id p) (rev ps) of
        None \<Rightarrow> p
      | Some (st, reason, pid) \<Rightarrow> p\<lparr>p_status := st, p_failure_reason := reason\<rparr>)"

text \<open>A tuple as the settlement loop builds it: paid without a reason, or failed with
  one of the three reasons.\<close>

definition ok_update :: "payment_update \<Rightarrow> bool" where
  "ok_update x =
     (case x of (st, reason, pid) \<Rightarrow>
        (st = ''paid'' \<and> reason = None) \<or> (st = ''failed'' \<and> reason \<in> Some ` set reasons))"

text \<open>A table row that satisfies the NOT NULL columns of \<^verbatim>\<open>farmer_payments\<close>.\<close>

definition complete_row :: "table_row \<Rightarrow> bool" where
  "complete_row r =
     (t_farmer_name r \<noteq> None \<and> t_bank_name r \<noteq> None \<and> t_account_number r \<noteq> None
      \<and> t_amount r \<noteq> None)"


subsection \<open>A worked example\<close>

text \<open>Two of the seeded users, one batch of two line items submitted by the cooperative,
  and the store after settling it once and twice. \<open>fail_draw\<close> is the largest value
  \<^verbatim>\<open>random.random()\<close> can take, \<open>draws\<close> a generator state.\<close>

definition admin_user :: user_row where
  "admin_user = \<lparr>u_id = 1, u_username = ''admin'',
     u_password = ''240be518fabd2724ddb6f04eeb1da5967448d7e831c08c8fa822809f74c720a9'',
     u_role = ''admin'', u_cooperative_name = ''Farmers Payment Module Admin''\<rparr>"

definition kcu_user :: user_row where
  "kcu_user = \<lparr>u_id = 2, u_username = ''kcu'',
     u_password = ''cd646100115c4d3019fefddb5b368108a3b12569491e1a4fcfaeb9eb530da3ba'',
     u_role = ''cooperative'', u_cooperative_name = ''Kilimanjaro Cooperative Union''\<rparr>"

definition admin_session :: session where
  "admin_session = \<lparr>s_id = 1, s_username = ''admin'', s_role = ''admin'',
     s_cooperative_name = ''Farmers Payment Module Admin''\<rparr>"

definition kcu_session :: session where
  "kcu_session = \<lparr>s_id = 2, s_username = ''kcu'', s_role = ''cooperative'',
     s_cooperative_name = ''Kilimanjaro Cooperative Union''\<rparr>"

definition batch1 :: "string \<Rightarrow> batch_row" where
  "batch1 st = \<lparr>b_id = 1, b_cooperative_id = 2, b_filename = ''farmers.csv'', b_record_count = 2,
     b_total_amount = 3500, b_submission_timestamp = 10, b_status = st, b_admin_notes = None,
     b_cooperative_notes = None\<rparr>"

definition payment1 :: "string \<Rightarrow> string option \<Rightarrow> payment_row" where
  "payment1 st reason = \<lparr>p_id = 1, p_batch_id = 1, p_farmer_name = ''Asha'', p_bank_name = ''CRDB'',
     p_account_number = ''0150001'', p_amount = 1000, p_status = st, p_failure_reason = reason\<rparr>"

definition payment2 :: "string \<Rightarrow> string option \<Rightarrow> payment_row" where
  "payment2 st reason = \<lparr>p_id = 2, p_batch_id = 1, p_farmer_name = ''Juma'', p_bank_name = ''NMB'',
     p_account_number = ''2200002'', p_amount = 2500, p_status = st, p_failure_reason = reason\<rparr>"

definition db_pending :: db where
  "db_pending = \<lparr>users = [admin_user, kcu_user],
     submission_batches = [batch1 ''pending_approval''],
     farmer_payments = [payment1 ''pending'' None, payment2 ''pending'' None],
     payment_history = [], activity_logs = []\<rparr>"

definition fail_draw :: nat where "fail_draw = 2 ^ 53 - 1"

definition history1 :: "nat \<Rightarrow> nat \<Rightarrow> history_row" where
  "history1 i now = \<lparr>h_id = i, h_batch_id = 1, h_cooperative_name = ''Kilimanjaro Cooperative Union'',
     h_filename = ''farmers.csv'', h_record_count = 2, h_total_amount = 3500,
     h_processing_timestamp = now\<rparr>"

definition log1 :: "nat \<Rightarrow> nat \<Rightarrow> string \<Rightarrow> string \<Rightarrow> log_row" where
  "log1 i now s f = \<lparr>l_id = i, l_timestamp = now, l_user_id = 1,
     l_cooperative_name = ''Farmers Payment Module Admin'', l_action = ''Payment Processed'',
     l_details = ''Processed 'farmers.csv' for Kilimanjaro Cooperative Union. Success: '' @ s
                 @ '', Failed: '' @ f @ ''.''\<rparr>"

definition db_settled_once :: db where
  "db_settled_once = \<lparr>users = [admin_user, kcu_user],
     submission_batches = [batch1 ''processed''],
     farmer_payments = [payment1 ''paid'' None, payment2 ''failed'' (Some ''Bank Error'')],
     payment_history = [history1 1 20], activity_logs = [log1 1 20 ''1'' ''1'']\<rparr>"

definition db_settled_twice :: db where
  "db_settled_twice = \<lparr>users = [admin_user, kcu_user],
     submission_batches = [batch1 ''processed''],
     farmer_payments = [payment1 ''failed'' (Some ''Bank Error''), payment2 ''failed'' (Some ''Bank Error'')],
     payment_history = [history1 1 20, history1 2 30],
     activity_logs = [log1 1 20 ''1'' ''1'', log1 2 30 ''0'' ''2'']\<rparr>"

definition db_settled_again :: db where
  "db_settled_again = \<lparr>users = [admin_user, kcu_user],
     submission_batches = [batch1 ''processed''],
     farmer_payments = [payment1 ''paid'' None, payment2 ''paid'' None],
     payment_history = [history1 1 20, history1 2 30],
     activity_logs = [log1 1 20 ''1'' ''1'', log1 2 30 ''2'' ''0'']\<rparr>"

definition kcu_ipn :: "nat \<Rightarrow> nat \<Rightarrow> ipn" where
  "kcu_ipn s f = \<lparr>ipn_coop = ''Kilimanjaro Cooperative Union'', ipn_success = s, ipn_failed = f,
     ipn_total = 2\<rparr>"

definition final_outputs :: "ipn \<Rightarrow> payment_outputs" where
  "final_outputs i = (Set True, Set True, Set Payment_processed, Set False, Set None, Set i)"



text \<open>The transaction of \<^verbatim>\<open>submit_to_admin\<close> raises: the storage layer fails at the batch
  row or at one of the line-item rows, or a line-item row violates NOT NULL.\<close>

definition persist_raises :: "storage_fault \<Rightarrow> table_row list \<Rightarrow> bool" where
  "persist_raises fault table_data =
     (fault = Fault_batch_insert
      \<or> (\<exists>i<length table_data. fault = Fault_item_insert i \<or> \<not> complete_row (table_data ! i)))"

text \<open>The batch row that \<^verbatim>\<open>submit_to_admin\<close> inserts.\<close>

definition new_batch :: "nat \<Rightarrow> nat \<Rightarrow> string \<Rightarrow> table_row list \<Rightarrow> string option \<Rightarrow> db \<Rightarrow> batch_row" where
  "new_batch now cooperative_id filename table_data coop_note d =
     \<lparr>b_id = next_id (map b_id (submission_batches d)), b_cooperative_id = cooperative_id,
      b_filename = filename, b_record_count = length table_data,
      b_total_amount = amount_sum table_data, b_submission_timestamp = now,
      b_status = ''pending_approval'', b_admin_notes = None, b_cooperative_notes = coop_note\<rparr>"

subsection \<open>Worked submissions\<close>

text \<open>The store with the two users and nothing else, the three line items of the
  specification's example scenario, and the store after the cooperative has submitted
  them.\<close>

definition seed_db :: db where
  "seed_db = \<lparr>users = [admin_user, kcu_user], submission_batches = [], farmer_payments = [],
     payment_history = [], activity_logs = []\<rparr>"

definition table_row_of :: "string \<Rightarrow> string \<Rightarrow> string \<Rightarrow> int \<Rightarrow> table_row" where
  "table_row_of name bank account amount =
     \<lparr>t_farmer_name = Some name, t_bank_name = Some bank, t_account_number = Some account,
      t_amount = Some amount\<rparr>"

definition three_rows :: "table_row list" where
  "three_rows = [table_row_of ''Asha'' ''CRDB'' ''0150001'' 1000,
                 table_row_of ''Juma'' ''NMB'' ''2200002'' 2500,
                 table_row_of ''Neema'' ''NBC'' ''0110003'' 750]"

definition payment_of :: "nat \<Rightarrow> string \<Rightarrow> string \<Rightarrow> string \<Rightarrow> int \<Rightarrow> payment_row" where
  "payment_of i name bank account amount =
     \<lparr>p_id = i, p_batch_id = 1, p_farmer_name = name, p_bank_name = bank,
      p_account_number = account, p_amount = amount, p_status = ''pending'',
      p_failure_reason = None\<rparr>"

definition submission_log :: "string \<Rightarrow> log_row" where
  "submission_log k = \<lparr>l_id = 1, l_timestamp = 10, l_user_id = 2,
     l_cooperative_name = ''Kilimanjaro Cooperative Union'', l_action = ''Data Submission'',
     l_details = ''Submitted 'farmers.csv' with '' @ k @ '' records.''\<rparr>"


text \<open>A submission that no validation would accept: empty strings and a negative amount.\<close>

definition bad_rows :: "table_row list" where
  "bad_rows = [table_row_of [] [] [] (- 5)]"

definition db_bad :: db where
  "db_bad = \<lparr>users = [admin_user, kcu_user],
     submission_batches =
       [\<lparr>b_id = 1, b_cooperative_id = 2, b_filename = ''farmers.csv'', b_record_count = 1,
         b_total_amount = - 5, b_submission_timestamp = 10, b_status = ''pending_approval'',
         b_admin_notes = None, b_cooperative_notes = None\<rparr>],
     farmer_payments = [payment_of 1 [] [] [] (- 5)],
     payment_history = [], activity_logs = [submission_log ''1'']\<rparr>"

text \<open>A submission whose second row has an empty name cell.\<close>

definition null_rows :: "table_row list" where
  "null_rows = [table_row_of ''Asha'' ''CRDB'' ''0150001'' 1000,
                \<lparr>t_farmer_name = None, t_bank_name = Some ''NMB'',
                 t_account_number = Some ''2200002'', t_amount = Some 2500\<rparr>]"

section \<open>Properties of the building blocks\<close>

lemma find_append_cases:
  "find P (xs @ ys) = (case find P xs of None \<Rightarrow> find P ys | Some x \<Rightarrow> Some x)"
  by (induction xs) auto

lemma row_update_Nil [simp]: "row_update [] p = p"
  by (simp add: row_update_def)

lemma p_id_row_update [simp]: "p_id (row_update ps p) = p_id p"
  by (simp add: row_update_def split: option.splits prod.splits)

lemma p_batch_id_row_update [simp]: "p_batch_id (row_update ps p) = p_batch_id p"
  by (simp add: row_update_def split: option.splits prod.splits)

lemma p_amount_row_update [simp]: "p_amount (row_update ps p) = p_amount p"
  by (simp add: row_update_def split: option.splits prod.splits)

lemma row_update_Cons:
  "row_update ((st, reason, pid) # ps) p =
   row_update ps (if p_id p = pid then p\<lparr>p_status := st, p_failure_reason := reason\<rparr> else p)"
  by (simp add: row_update_def find_append_cases split: option.splits prod.splits)

lemma executemany_update_rows: "executemany_update ps tbl = map (row_update ps) tbl"
proof (induction ps arbitrary: tbl)
  case Nil
  show ?case by simp
next
  case (Cons x ps)
  obtain st reason pid where x: "x = (st, reason, pid)" by (cases x)
  show ?case
    unfolding x by (simp add: Cons.IH row_update_Cons)
qed

lemma row_update_idem: "row_update ps (row_update ps p) = row_update ps p"
  by (simp add: row_update_def split: option.splits prod.splits)

lemma executemany_update_idem:
  "executemany_update ps (executemany_update ps tbl) = executemany_update ps tbl"
  by (simp add: executemany_update_rows row_update_idem)

lemma random_choice_reasons: "fst (random_choice reasons g) \<in> set reasons"
proof -
  have "shd g mod 3 < 3" by simp
  then have "reasons ! (shd g mod length reasons) \<in> set reasons"
    by (intro nth_mem) (simp add: reasons_def)
  then show ?thesis by (simp add: random_choice_def)
qed

lemma ok_update_paid: "ok_update (''paid'', None, pid)"
  by (simp add: ok_update_def)

lemma ok_update_failed: "reason \<in> set reasons \<Longrightarrow> ok_update (''failed'', Some reason, pid)"
  by (simp add: ok_update_def)

lemma settle_loop_spec:
  "settle_loop pids g (ps, s, f) = ((ps', s', f'), g') \<Longrightarrow>
   \<exists>new. ps' = ps @ new \<and> map (\<lambda>x. snd (snd x)) new = pids \<and> list_all ok_update new
     \<and> s' = s + length (filter (\<lambda>x. fst x = ''paid'') new)
     \<and> f' = f + length (filter (\<lambda>x. fst x = ''failed'') new)"
proof (induction pids arbitrary: g ps s f)
  case Nil
  then show ?case by simp
next
  case (Cons pid pids)
  obtain u g1 where u: "random_random g = (u, g1)" by (cases "random_random g")
  show ?case
  proof (cases "u < p_success")
    case True
    with Cons.prems u
    have "settle_loop pids g1 (ps @ [(''paid'', None, pid)], s + 1, f) = ((ps', s', f'), g')"
      by simp
    from Cons.IH [OF this] obtain new where
      new: "ps' = (ps @ [(''paid'', None, pid)]) @ new" "map (\<lambda>x. snd (snd x)) new = pids"
        "list_all ok_update new"
        "s' = s + 1 + length (filter (\<lambda>x. fst x = ''paid'') new)"
        "f' = f + length (filter (\<lambda>x. fst x = ''failed'') new)"
      by blast
    show ?thesis
      using new by (intro exI [of _ "(''paid'', None, pid) # new"]) (simp add: ok_update_paid)
  next
    case False
    obtain reason g2 where r: "random_choice reasons g1 = (reason, g2)"
      by (cases "random_choice reasons g1")
    have mem: "reason \<in> set reasons"
      using random_choice_reasons [of g1] r by simp
    from False Cons.prems u r
    have "settle_loop pids g2 (ps @ [(''failed'', Some reason, pid)], s, f + 1) = ((ps', s', f'), g')"
      by simp
    from Cons.IH [OF this] obtain new where
      new: "ps' = (ps @ [(''failed'', Some reason, pid)]) @ new" "map (\<lambda>x. snd (snd x)) new = pids"
        "list_all ok_update new"
        "s' = s + length (filter (\<lambda>x. fst x = ''paid'') new)"
        "f' = f + 1 + length (filter (\<lambda>x. fst x = ''failed'') new)"
      by blast
    show ?thesis
      using new mem by (intro exI [of _ "(''failed'', Some reason, pid) # new"]) (simp add: ok_update_failed)
  qed
qed

lemma settle_loop_start:
  assumes "settle_loop pids g ([], 0, 0) = ((ps, s, f), g')"
  shows "map (\<lambda>x. snd (snd x)) ps = pids" and "list_all ok_update ps"
    and "s = length (filter (\<lambda>x. fst x = ''paid'') ps)"
    and "f = length (filter (\<lambda>x. fst x = ''failed'') ps)"
  using settle_loop_spec [OF assms] by auto

lemma select_where: "[f x. x \<leftarrow> xs, P x] = map f (filter P xs)"
  by (induction xs) simp_all

lemma fetchone_None_iff: "fetchone xs = None \<longleftrightarrow> xs = []"
  by (simp add: fetchone_def split: list.splits)

lemma fetchone_select_None:
  "fetchone [f x. x \<leftarrow> xs, P x] = None \<longleftrightarrow> (\<forall>x\<in>set xs. \<not> P x)"
  by (simp add: fetchone_None_iff select_where filter_empty_conv)

lemma log_activity_tables:
  "log_activity now uid action details d = Inr d' \<Longrightarrow>
   users d' = users d \<and> submission_batches d' = submission_batches d
   \<and> farmer_payments d' = farmer_payments d \<and> payment_history d' = payment_history d"
  by (auto simp: log_activity_def split: option.splits)

lemma log_activity_Inr_iff:
  "(\<exists>d'. log_activity now uid action details d = Inr d') \<longleftrightarrow> (\<exists>u\<in>set (users d). u_id u = uid)"
proof -
  have "(\<exists>d'. log_activity now uid action details d = Inr d')
        \<longleftrightarrow> fetchone [u_cooperative_name u. u \<leftarrow> users d, u_id u = uid] \<noteq> None"
    by (simp add: log_activity_def split: option.splits)
  then show ?thesis
    unfolding fetchone_select_None by simp
qed

lemma log_activity_Inl: "log_activity now uid action details d = Inl e \<Longrightarrow> e = TypeError"
  by (simp add: log_activity_def split: option.splits)

lemma log_activity_cases:
  "log_activity now uid action details d =
     (if \<exists>u\<in>set (users d). u_id u = uid
      then Inr (d\<lparr>activity_logs := activity_logs d @
                 [\<lparr>l_id = next_id (map l_id (activity_logs d)), l_timestamp = now, l_user_id = uid,
                   l_cooperative_name = the (fetchone [u_cooperative_name u. u \<leftarrow> users d, u_id u = uid]),
                   l_action = action, l_details = details\<rparr>]\<rparr>)
      else Inl TypeError)"
proof (cases "fetchone [u_cooperative_name u. u \<leftarrow> users d, u_id u = uid]")
  case None
  then have "\<not> (\<exists>u\<in>set (users d). u_id u = uid)"
    unfolding fetchone_select_None by simp
  with None show ?thesis
    unfolding log_activity_def by simp
next
  case (Some c)
  then have "fetchone [u_cooperative_name u. u \<leftarrow> users d, u_id u = uid] \<noteq> None"
    by simp
  then have "\<exists>u\<in>set (users d). u_id u = uid"
    unfolding fetchone_select_None by simp
  with Some show ?thesis
    unfolding log_activity_def by simp
qed

lemma process_payment_tables:
  assumes loop: "settle_loop (payment_ids_query bid d) g ([], 0, 0) = ((ps, s, f), g1)"
  shows "fst (snd (process_payment now bid sess g d)) = g1"
    and "users (snd (snd (process_payment now bid sess g d))) = users d"
    and "submission_batches (snd (snd (process_payment now bid sess g d)))
         = map (\<lambda>b. if b_id b = bid then b\<lparr>b_status := ''processed''\<rparr> else b) (submission_batches d)"
    and "farmer_payments (snd (snd (process_payment now bid sess g d)))
         = map (row_update ps) (farmer_payments d)"
    and "payment_history (snd (snd (process_payment now bid sess g d)))
         = (case batch_info_query bid d of
              None \<Rightarrow> payment_history d
            | Some (c, fn, n, t) \<Rightarrow>
                payment_history d @
                [\<lparr>h_id = next_id (map h_id (payment_history d)), h_batch_id = bid,
                  h_cooperative_name = c, h_filename = fn, h_record_count = n,
                  h_total_amount = t, h_processing_timestamp = now\<rparr>])"
    and "fst (process_payment now bid sess g d)
         = (case batch_info_query bid d of
              None \<Rightarrow> Inl TypeError
            | Some (c, fn, n, t) \<Rightarrow>
                if \<exists>u\<in>set (users d). u_id u = s_id sess
                then Inr \<lparr>ipn_coop = c, ipn_success = s, ipn_failed = f, ipn_total = n\<rparr>
                else Inl TypeError)"
  using loop
  by (simp_all add: process_payment_def Let_def executemany_update_rows log_activity_cases
      split: option.splits prod.splits)

lemma handle_interval_final:
  "4 \<le> n \<Longrightarrow>
   handle_payment_processing now (Some Payment_interval) n (Some bid) sess g d =
     (case process_payment now bid sess g d of
        (Inl e, g', d') \<Rightarrow> (Inl e, g', d')
      | (Inr i, g', d') \<Rightarrow>
          (Inr (Set True, Set True, Set Payment_processed, Set False, Set None, Set i), g', d'))"
  by (simp add: handle_payment_processing_def)



lemma find_SomeD: "find P xs = Some x \<Longrightarrow> x \<in> set xs \<and> P x"
  by (induction xs) (auto split: if_splits)

lemma row_update_hit:
  assumes "p_id p \<in> (\<lambda>x. snd (snd x)) ` set ps"
  shows "\<exists>st reason. (st, reason, p_id p) \<in> set ps
           \<and> row_update ps p = p\<lparr>p_status := st, p_failure_reason := reason\<rparr>"
proof (cases "find (\<lambda>(st, reason, pid). pid = p_id p) (rev ps)")
  case None
  with assms show ?thesis
    by (auto simp: find_None_iff)
next
  case (Some x)
  obtain st reason pid where x: "x = (st, reason, pid)" by (cases x)
  from find_SomeD [OF Some] x have "(st, reason, pid) \<in> set ps" "pid = p_id p"
    by auto
  with Some x show ?thesis
    by (auto simp: row_update_def)
qed

lemma row_update_miss:
  assumes "p_id p \<notin> (\<lambda>x. snd (snd x)) ` set ps"
  shows "row_update ps p = p"
proof (cases "find (\<lambda>(st, reason, pid). pid = p_id p) (rev ps)")
  case None
  then show ?thesis by (simp add: row_update_def)
next
  case (Some x)
  from find_SomeD [OF Some] assms show ?thesis
    by (force simp: image_iff)
qed

lemma settle_loop_draw_paid:
  "settle_loop (pid # pids) (0 ## g) (ps, s, f)
   = settle_loop pids g (ps @ [(''paid'', None, pid)], s + 1, f)"
  by (simp add: random_random_def p_success_def)

lemma settle_loop_draw_failed:
  "settle_loop (pid # pids) (fail_draw ## 1 ## g) (ps, s, f)
   = settle_loop pids g (ps @ [(''failed'', Some ''Bank Error'', pid)], s, f + 1)"
  by (simp add: random_random_def p_success_def fail_draw_def random_choice_def reasons_def)

lemma settle_loop_result: "\<exists>ps s f g1. settle_loop pids g acc = ((ps, s, f), g1)"
proof -
  obtain x g1 where "settle_loop pids g acc = (x, g1)" by (cases "settle_loop pids g acc")
  moreover obtain ps s f where "x = (ps, s, f)" by (cases x)
  ultimately show ?thesis by blast
qed

lemma db_pending_pids: "payment_ids_query 1 db_pending = [1, 2]"
  by (simp add: payment_ids_query_def db_pending_def payment1_def payment2_def)

lemma loop1: "settle_loop [1, 2] (0 ## fail_draw ## 1 ## g) ([], 0, 0)
  = (([(''paid'', None, 1), (''failed'', Some ''Bank Error'', 2)], 1, 1), g)"
  by (simp only: settle_loop_draw_paid settle_loop_draw_failed) simp

lemma binfo: "batch_info_query 1 db_pending = Some (''Kilimanjaro Cooperative Union'', ''farmers.csv'', 2, 3500)"
  by (simp add: batch_info_query_def db_pending_def fetchone_def batch1_def admin_user_def kcu_user_def)

lemma handle_interval_final_parts:
  assumes "4 \<le> n"
    and "handle_payment_processing now (Some Payment_interval) n (Some bid) sess g d = (r, g', d')"
  shows "r = map_sum id (\<lambda>i. (Set True, Set True, Set Payment_processed, Set False, Set None, Set i))
               (fst (process_payment now bid sess g d))
         \<and> g' = fst (snd (process_payment now bid sess g d))
         \<and> d' = snd (snd (process_payment now bid sess g d))"
proof -
  obtain r0 g0 d0 where pp: "process_payment now bid sess g d = (r0, g0, d0)"
    by (cases "process_payment now bid sess g d")
  show ?thesis
    using assms(2) unfolding handle_interval_final [OF assms(1)] pp
    by (cases r0) auto
qed

lemmas example_defs = db_pending_def db_settled_once_def db_settled_twice_def db_settled_again_def
  kcu_ipn_def admin_user_def kcu_user_def admin_session_def batch1_def payment1_def payment2_def
  history1_def log1_def





lemma process_payment_pending:
  "process_payment 20 1 admin_session (0 ## fail_draw ## 1 ## g) db_pending
   = (Inr (kcu_ipn 1 1), g, db_settled_once)"
  unfolding process_payment_def Let_def db_pending_pids loop1 binfo
  by (simp add: executemany_update_rows row_update_def example_defs log_activity_def fetchone_def
      next_id_def str_nat.simps digit_char_def)



lemma handle_pending:
  "handle_payment_processing 20 (Some Payment_interval) 4 (Some 1) admin_session
     (0 ## fail_draw ## 1 ## g) db_pending
   = (Inr (final_outputs (kcu_ipn 1 1)), g, db_settled_once)"
proof -
  have "(4::nat) \<le> 4" by simp
  from handle_interval_final [OF this] show ?thesis
    by (simp only: process_payment_pending final_outputs_def prod.case sum.case)
qed






lemma fetchone_SomeD: "fetchone xs = Some x \<Longrightarrow> x \<in> set xs"
  by (auto simp: fetchone_def split: list.splits)


lemma join_set:
  "set [f b u. b \<leftarrow> bs, u \<leftarrow> us, P b u, Q b]
   = {f b u |b u. b \<in> set bs \<and> u \<in> set us \<and> P b u \<and> Q b}"
  by (fastforce split: if_splits)

lemma batch_info_query_SomeD:
  assumes "batch_info_query bid d = Some (c, fn, k, t)"
  shows "\<exists>b\<in>set (submission_batches d). \<exists>u\<in>set (users d).
           b_id b = bid \<and> b_cooperative_id b = u_id u \<and> c = u_cooperative_name u
           \<and> fn = b_filename b \<and> k = b_record_count b \<and> t = b_total_amount b"
proof -
  from fetchone_SomeD [OF assms [unfolded batch_info_query_def]]
  show ?thesis unfolding join_set by blast
qed










lemma complete_row_cases:
  "complete_row r \<longleftrightarrow>
   (\<exists>a b c e. t_farmer_name r = Some a \<and> t_bank_name r = Some b \<and> t_account_number r = Some c
      \<and> t_amount r = Some e)"
  by (auto simp: complete_row_def)

lemma to_sql_Cons_ok:
  assumes "fault \<noteq> Fault_item_insert k" and "complete_row r"
  shows "to_sql fault bid k (r # rs) tbl =
         to_sql fault bid (Suc k) rs
           (tbl @ [\<lparr>p_id = next_id (map p_id tbl), p_batch_id = bid,
                    p_farmer_name = the (t_farmer_name r), p_bank_name = the (t_bank_name r),
                    p_account_number = the (t_account_number r), p_amount = the (t_amount r),
                    p_status = ''pending'', p_failure_reason = None\<rparr>])"
  using assms by (auto simp: complete_row_cases to_sql.simps)

lemma to_sql_Cons_bad:
  assumes "fault = Fault_item_insert k \<or> \<not> complete_row r"
  shows "\<exists>e. to_sql fault bid k (r # rs) tbl = Inl e"
  using assms by (auto simp: complete_row_def to_sql.simps split: option.splits)

lemma to_sql_Inr:
  "to_sql fault bid k rows tbl = Inr tbl' \<Longrightarrow>
   \<exists>new. tbl' = tbl @ new \<and> length new = length rows
     \<and> list_all (\<lambda>p. p_batch_id p = bid \<and> p_status p = ''pending'' \<and> p_failure_reason p = None) new
     \<and> map (\<lambda>p. Some (p_amount p)) new = map t_amount rows
     \<and> map (\<lambda>p. Some (p_farmer_name p)) new = map t_farmer_name rows
     \<and> map (\<lambda>p. Some (p_bank_name p)) new = map t_bank_name rows
     \<and> map (\<lambda>p. Some (p_account_number p)) new = map t_account_number rows"
proof (induction rows arbitrary: k tbl)
  case Nil
  then show ?case by (simp add: to_sql.simps)
next
  case (Cons r rs)
  show ?case
  proof (cases "fault = Fault_item_insert k \<or> \<not> complete_row r")
    case True
    from to_sql_Cons_bad [OF True, of bid rs tbl] Cons.prems show ?thesis by auto
  next
    case False
    then have ok: "fault \<noteq> Fault_item_insert k" "complete_row r" by auto
    let ?p = "\<lparr>p_id = next_id (map p_id tbl), p_batch_id = bid,
                    p_farmer_name = the (t_farmer_name r), p_bank_name = the (t_bank_name r),
                    p_account_number = the (t_account_number r), p_amount = the (t_amount r),
                    p_status = ''pending'', p_failure_reason = None\<rparr>"
    from Cons.prems have "to_sql fault bid (Suc k) rs (tbl @ [?p]) = Inr tbl'"
      unfolding to_sql_Cons_ok [OF ok] .
    from Cons.IH [OF this] obtain new where new: "tbl' = (tbl @ [?p]) @ new" "length new = length rs"
      "list_all (\<lambda>p. p_batch_id p = bid \<and> p_status p = ''pending'' \<and> p_failure_reason p = None) new"
      "map (\<lambda>p. Some (p_amount p)) new = map t_amount rs"
      "map (\<lambda>p. Some (p_farmer_name p)) new = map t_farmer_name rs"
      "map (\<lambda>p. Some (p_bank_name p)) new = map t_bank_name rs"
      "map (\<lambda>p. Some (p_account_number p)) new = map t_account_number rs"
      by blast
    from ok(2) have "Some (p_amount ?p) = t_amount r" "Some (p_farmer_name ?p) = t_farmer_name r"
      "Some (p_bank_name ?p) = t_bank_name r" "Some (p_account_number ?p) = t_account_number r"
      by (auto simp: complete_row_cases)
    with new show ?thesis
      by (intro exI [of _ "?p # new"]) simp
  qed
qed

lemma to_sql_Inl_iff:
  "(\<exists>e. to_sql fault bid k rows tbl = Inl e) \<longleftrightarrow>
   (\<exists>i<length rows. fault = Fault_item_insert (k + i) \<or> \<not> complete_row (rows ! i))"
proof (induction rows arbitrary: k tbl)
  case Nil
  show ?case by (simp add: to_sql.simps)
next
  case (Cons r rs)
  show ?case
  proof (cases "fault = Fault_item_insert k \<or> \<not> complete_row r")
    case True
    then have "\<exists>i<length (r # rs). fault = Fault_item_insert (k + i) \<or> \<not> complete_row ((r # rs) ! i)"
      by (intro exI [of _ 0]) simp
    with to_sql_Cons_bad [OF True, of bid rs tbl] show ?thesis by blast
  next
    case False
    then have ok: "fault \<noteq> Fault_item_insert k" "complete_row r" by auto
    have "(\<exists>i<length (r # rs). fault = Fault_item_insert (k + i) \<or> \<not> complete_row ((r # rs) ! i))
          \<longleftrightarrow> (\<exists>i<length rs. fault = Fault_item_insert (Suc k + i) \<or> \<not> complete_row (rs ! i))"
      using ok by (auto simp: less_Suc_eq_0_disj)
    moreover have "(\<exists>e. to_sql fault bid k (r # rs) tbl = Inl e)
          \<longleftrightarrow> (\<exists>i<length rs. fault = Fault_item_insert (Suc k + i) \<or> \<not> complete_row (rs ! i))"
      unfolding to_sql_Cons_ok [OF ok] by (rule Cons.IH)
    ultimately show ?thesis by blast
  qed
qed



lemma submit_transaction_Inr:
  assumes "submit_transaction fault now cid fn rows note d = Inr d1"
  shows "\<exists>new. d1 = d\<lparr>submission_batches := submission_batches d @ [new_batch now cid fn rows note d],
                        farmer_payments := farmer_payments d @ new\<rparr>
           \<and> length new = length rows
           \<and> list_all (\<lambda>p. p_batch_id p = next_id (map b_id (submission_batches d))
                             \<and> p_status p = ''pending'' \<and> p_failure_reason p = None) new
           \<and> map (\<lambda>p. Some (p_amount p)) new = map t_amount rows
           \<and> map (\<lambda>p. Some (p_farmer_name p)) new = map t_farmer_name rows
           \<and> map (\<lambda>p. Some (p_bank_name p)) new = map t_bank_name rows
           \<and> map (\<lambda>p. Some (p_account_number p)) new = map t_account_number rows"
proof -
  from assms have nf: "fault \<noteq> Fault_batch_insert"
    by (auto simp: submit_transaction_def insert_batch_def)
  with assms obtain payments where
    p: "to_sql fault (next_id (map b_id (submission_batches d))) 0 rows (farmer_payments d) = Inr payments"
    and d1: "d1 = d\<lparr>submission_batches := submission_batches d @ [new_batch now cid fn rows note d],
                    farmer_payments := payments\<rparr>"
    by (auto simp: submit_transaction_def insert_batch_def Let_def new_batch_def split: sum.splits)
  from to_sql_Inr [OF p] d1 show ?thesis by blast
qed

lemma submit_transaction_Inl_iff:
  "(\<exists>e. submit_transaction fault now cid fn rows note d = Inl e) \<longleftrightarrow> persist_raises fault rows"
proof (cases "fault = Fault_batch_insert")
  case True
  then show ?thesis
    by (simp add: submit_transaction_def insert_batch_def persist_raises_def)
next
  case False
  have "(\<exists>e. submit_transaction fault now cid fn rows note d = Inl e)
        \<longleftrightarrow> (\<exists>e. to_sql fault (next_id (map b_id (submission_batches d))) 0 rows (farmer_payments d) = Inl e)"
    using False by (auto simp: submit_transaction_def insert_batch_def Let_def split: sum.splits)
  then show ?thesis
    unfolding to_sql_Inl_iff persist_raises_def using False by simp
qed

lemma submit_to_admin_skip:
  "\<not> truthy n_clicks \<or> rows = [] \<Longrightarrow>
   submit_to_admin fault now n_clicks rows fn sess note d
   = ((Text [], False, [], no_update, no_update), d)"
  by (auto simp: submit_to_admin_def)

lemma submit_to_admin_Inl:
  assumes "truthy n_clicks" and "rows \<noteq> []"
    and "submit_transaction fault now (s_id sess) (case fn of None \<Rightarrow> ''uploaded_file'' | Some f \<Rightarrow> f)
           rows note d = Inl e"
  shows "submit_to_admin fault now n_clicks rows fn sess note d
         = ((Database_error e, True, ''danger'', no_update, no_update), d)"
  using assms by (simp add: submit_to_admin_def Let_def)

lemma submit_to_admin_Inr:
  assumes "truthy n_clicks" and "rows \<noteq> []"
    and "submit_transaction fault now (s_id sess) (case fn of None \<Rightarrow> ''uploaded_file'' | Some f \<Rightarrow> f)
           rows note d = Inr d1"
  shows "submission_batches (snd (submit_to_admin fault now n_clicks rows fn sess note d))
           = submission_batches d1
         \<and> farmer_payments (snd (submit_to_admin fault now n_clicks rows fn sess note d))
           = farmer_payments d1
         \<and> users (snd (submit_to_admin fault now n_clicks rows fn sess note d)) = users d1
         \<and> payment_history (snd (submit_to_admin fault now n_clicks rows fn sess note d))
           = payment_history d1"
  using assms
  by (auto simp: submit_to_admin_def Let_def split: sum.splits dest: log_activity_tables)


lemma submit_bad:
  "submit_to_admin No_fault 10 (Some 1) bad_rows (Some ''farmers.csv'') kcu_session None seed_db
   = ((Text ''Successfully submitted 1 records.'', True, ''success'', Set (), Set 10), db_bad)"
  by (simp add: submit_to_admin_def truthy_def bad_rows_def table_row_of_def submit_transaction_def
      insert_batch_def amount_sum_def to_sql.simps seed_db_def next_id_def log_activity_def
      fetchone_def admin_user_def kcu_user_def kcu_session_def db_bad_def payment_of_def
      submission_log_def str_nat.simps digit_char_def)

lemma submit_null:
  "submit_to_admin No_fault 10 (Some 1) null_rows (Some ''farmers.csv'') kcu_session None seed_db
   = ((Database_error IntegrityError, True, ''danger'', no_update, no_update), seed_db)"
  by (simp add: submit_to_admin_def truthy_def null_rows_def table_row_of_def submit_transaction_def
      insert_batch_def amount_sum_def to_sql.simps seed_db_def next_id_def)

lemma submit_fault:
  "submit_to_admin (Fault_item_insert 2) 10 (Some 1) three_rows (Some ''farmers.csv'') kcu_session
     (Some ''March'') seed_db
   = ((Database_error OperationalError, True, ''danger'', no_update, no_update), seed_db)"
  by (simp add: submit_to_admin_def truthy_def three_rows_def table_row_of_def submit_transaction_def
      insert_batch_def amount_sum_def to_sql.simps seed_db_def next_id_def)


lemma not_persist_raises:
  "list_all complete_row rows \<Longrightarrow> \<not> persist_raises No_fault rows"
  by (auto simp: persist_raises_def list_all_length)

lemma submit_transaction_ok:
  assumes "\<not> persist_raises fault rows"
  shows "\<exists>d1. submit_transaction fault now cid fn rows note d = Inr d1"
proof (cases "submit_transaction fault now cid fn rows note d")
  case (Inl e)
  with submit_transaction_Inl_iff [of fault now cid fn rows "note" d] assms show ?thesis
    by blast
next
  case (Inr d1)
  then show ?thesis by blast
qed


lemma set_note_all:
  "list_all (\<lambda>b. b_id b = bid \<longrightarrow> b_admin_notes b = Some v)
     (map (\<lambda>b. if b_id b = bid then b\<lparr>b_admin_notes := Some v\<rparr> else b) bs)"
  by (induction bs) simp_all

lemma set_note_others:
  "filter (\<lambda>b. b_id b \<noteq> bid) (map (\<lambda>b. if b_id b = bid then b\<lparr>b_admin_notes := Some v\<rparr> else b) bs)
   = filter (\<lambda>b. b_id b \<noteq> bid) bs"
  by (induction bs) simp_all

section \<open>Settlement\<close>

text \<open>
  Claim C7. After a settlement pass, every line item of the settled batch has a failure
  reason if and only if its status is \<open>failed\<close>; an item resolved as \<open>paid\<close> has none.
\<close>

theorem settlement_failure_reason_iff:
  assumes "4 \<le> n"
    and "handle_payment_processing now (Some Payment_interval) n (Some bid) sess g d = (r, g', d')"
    and "p \<in> set (farmer_payments d')" and "p_batch_id p = bid"
  shows "p_failure_reason p \<noteq> None \<longleftrightarrow> p_status p = ''failed''"
proof -
  obtain ps s f g1 where loop: "settle_loop (payment_ids_query bid d) g ([], 0, 0) = ((ps, s, f), g1)"
    using settle_loop_result by blast
  from handle_interval_final_parts [OF assms(1,2)]
  have "d' = snd (snd (process_payment now bid sess g d))" by simp
  then have tbl: "farmer_payments d' = map (row_update ps) (farmer_payments d)"
    by (simp add: process_payment_tables(4) [OF loop])
  with assms(3) obtain p0 where p0: "p0 \<in> set (farmer_payments d)" "p = row_update ps p0"
    by auto
  with assms(4) have "p_batch_id p0 = bid" by simp
  with p0(1) have "p_id p0 \<in> set (payment_ids_query bid d)"
    by (auto simp: payment_ids_query_def select_where)
  then have "p_id p0 \<in> (\<lambda>x. snd (snd x)) ` set ps"
    using settle_loop_start(1) [OF loop] by (metis set_map)
  from row_update_hit [OF this] obtain st reason where
    hit: "(st, reason, p_id p0) \<in> set ps" "p = p0\<lparr>p_status := st, p_failure_reason := reason\<rparr>"
    using p0(2) by auto
  from settle_loop_start(2) [OF loop] hit(1) have "ok_update (st, reason, p_id p0)"
    by (simp add: list_all_iff)
  then show ?thesis
    by (auto simp: ok_update_def hit(2))
qed

theorem settlement_failure_reason_iff_witness:
  "(4::nat) \<le> 4
   \<and> handle_payment_processing 20 (Some Payment_interval) 4 (Some 1) admin_session
       (0 ## fail_draw ## 1 ## sconst 0) db_pending
     = (Inr (final_outputs (kcu_ipn 1 1)), sconst 0, db_settled_once)
   \<and> payment2 ''failed'' (Some ''Bank Error'') \<in> set (farmer_payments db_settled_once)
   \<and> p_batch_id (payment2 ''failed'' (Some ''Bank Error'')) = 1
   \<and> (p_failure_reason (payment2 ''failed'' (Some ''Bank Error'')) \<noteq> None
        \<longleftrightarrow> p_status (payment2 ''failed'' (Some ''Bank Error'')) = ''failed'')"
proof -
  have run: "handle_payment_processing 20 (Some Payment_interval) 4 (Some 1) admin_session
       (0 ## fail_draw ## 1 ## sconst 0) db_pending
     = (Inr (final_outputs (kcu_ipn 1 1)), sconst 0, db_settled_once)"
    by (rule handle_pending)
  have mem: "payment2 ''failed'' (Some ''Bank Error'') \<in> set (farmer_payments db_settled_once)"
    by (simp add: db_settled_once_def)
  have bid: "p_batch_id (payment2 ''failed'' (Some ''Bank Error'')) = 1"
    by (simp add: payment2_def)
  have n: "(4::nat) \<le> 4" by simp
  from settlement_failure_reason_iff [OF n run mem bid] run mem bid show ?thesis
    by simp
qed










text \<open>
  Claim C6 fails as stated: the result handed to the notification carries no amount.
  Its \<^verbatim>\<open>total\<close> is the record count of the batch, 2 in the worked example, where the
  submitted total is 3500.
\<close>

theorem settlement_total_counterexample:
  "handle_payment_processing 20 (Some Payment_interval) 4 (Some 1) admin_session
     (0 ## fail_draw ## 1 ## sconst 0) db_pending
   = (Inr (Set True, Set True, Set Payment_processed, Set False, Set None,
           Set \<lparr>ipn_coop = ''Kilimanjaro Cooperative Union'', ipn_success = 1, ipn_failed = 1,
                ipn_total = 2\<rparr>), sconst 0, db_settled_once)
   \<and> map b_total_amount (submission_batches db_pending) = [3500]
   \<and> map b_record_count (submission_batches db_pending) = [2]"
proof (intro conjI)
  show "handle_payment_processing 20 (Some Payment_interval) 4 (Some 1) admin_session
     (0 ## fail_draw ## 1 ## sconst 0) db_pending
   = (Inr (Set True, Set True, Set Payment_processed, Set False, Set None,
           Set \<lparr>ipn_coop = ''Kilimanjaro Cooperative Union'', ipn_success = 1, ipn_failed = 1,
                ipn_total = 2\<rparr>), sconst 0, db_settled_once)"
    using handle_pending [of "sconst 0"] unfolding final_outputs_def kcu_ipn_def .
  show "map b_total_amount (submission_batches db_pending) = [3500]"
    by (simp add: db_pending_def batch1_def)
  show "map b_record_count (submission_batches db_pending) = [2]"
    by (simp add: db_pending_def batch1_def)
qed

text \<open>
  Claim C6, amended. Settlement never changes the recorded total amount of any batch.
  On success it appends one history row for the batch, which carries the total amount
  read from the batch record; the result handed to the notification carries the record
  count of the batch as its \<^verbatim>\<open>total\<close>.
\<close>

theorem settlement_total_frame:
  assumes "4 \<le> n"
    and run: "handle_payment_processing now (Some Payment_interval) n (Some bid) sess g d = (r, g', d')"
  shows "map b_total_amount (submission_batches d') = map b_total_amount (submission_batches d)
         \<and> (\<forall>i. r = Inr (final_outputs i) \<longrightarrow>
               (\<exists>b\<in>set (submission_batches d). \<exists>h.
                  b_id b = bid \<and> payment_history d' = payment_history d @ [h]
                  \<and> h_batch_id h = bid \<and> h_total_amount h = b_total_amount b
                  \<and> ipn_total i = b_record_count b))"
proof -
  obtain ps s f g1 where loop: "settle_loop (payment_ids_query bid d) g ([], 0, 0) = ((ps, s, f), g1)"
    using settle_loop_result by blast
  note parts = handle_interval_final_parts [OF assms(1) run]
  note tbls = process_payment_tables [OF loop, of now sess]
  have frame: "map b_total_amount (submission_batches d') = map b_total_amount (submission_batches d)"
    using parts tbls(3) by (simp add: comp_def cong: if_cong)
  have carried: "\<exists>b\<in>set (submission_batches d). \<exists>h.
                  b_id b = bid \<and> payment_history d' = payment_history d @ [h]
                  \<and> h_batch_id h = bid \<and> h_total_amount h = b_total_amount b
                  \<and> ipn_total i = b_record_count b"
    if "r = Inr (final_outputs i)" for i
  proof -
    from that parts have res: "fst (process_payment now bid sess g d) = Inr i"
      by (cases "fst (process_payment now bid sess g d)") (auto simp: final_outputs_def)
    then obtain c fn k t where info: "batch_info_query bid d = Some (c, fn, k, t)"
      unfolding tbls(6) by (auto split: option.splits)
    from res have "ipn_total i = k"
      unfolding tbls(6) info by (auto split: if_splits)
    moreover from batch_info_query_SomeD [OF info] obtain b where
      b: "b \<in> set (submission_batches d)" "b_id b = bid" "k = b_record_count b" "t = b_total_amount b"
      by blast
    moreover have "payment_history d' = payment_history d @
        [\<lparr>h_id = next_id (map h_id (payment_history d)), h_batch_id = bid,
          h_cooperative_name = c, h_filename = fn, h_record_count = k,
          h_total_amount = t, h_processing_timestamp = now\<rparr>]"
      using parts tbls(5) info by simp
    ultimately show ?thesis by auto
  qed
  from frame carried show ?thesis by blast
qed

theorem settlement_total_frame_witness:
  "(4::nat) \<le> 4
   \<and> handle_payment_processing 20 (Some Payment_interval) 4 (Some 1) admin_session
       (0 ## fail_draw ## 1 ## sconst 0) db_pending
     = (Inr (final_outputs (kcu_ipn 1 1)), sconst 0, db_settled_once)
   \<and> map b_total_amount (submission_batches db_settled_once)
     = map b_total_amount (submission_batches db_pending)
   \<and> (\<exists>b\<in>set (submission_batches db_pending). \<exists>h.
         b_id b = 1 \<and> payment_history db_settled_once = payment_history db_pending @ [h]
         \<and> h_batch_id h = 1 \<and> h_total_amount h = b_total_amount b
         \<and> ipn_total (kcu_ipn 1 1) = b_record_count b)"
proof -
  have n: "(4::nat) \<le> 4" by simp
  note run = handle_pending [of "sconst 0"]
  from settlement_total_frame [OF n run] run show ?thesis
    by blast
qed

section \<open>Submission\<close>



text \<open>
  Claim C10. Submission persistence is all or nothing. Whenever persisting the batch row
  or a line-item row raises, the store is left exactly as it was and the callback
  reports a database error; otherwise the batch row and all its line-item rows are
  there together. For every attempt, the two tables are either both unchanged or
  extended by the batch row and by one line item per submitted row.
\<close>

theorem submit_all_or_nothing:
  assumes "submit_to_admin fault now n_clicks rows fn sess note d = (out, d')"
  shows "(persist_raises fault rows \<longrightarrow> d' = d)
       \<and> (truthy n_clicks \<and> rows \<noteq> [] \<and> persist_raises fault rows \<longrightarrow>
            (\<exists>e. out = (Database_error e, True, ''danger'', no_update, no_update)))
       \<and> (truthy n_clicks \<and> rows \<noteq> [] \<and> \<not> persist_raises fault rows \<longrightarrow>
            (\<exists>b new. submission_batches d' = submission_batches d @ [b]
               \<and> farmer_payments d' = farmer_payments d @ new \<and> length new = length rows
               \<and> list_all (\<lambda>p. p_batch_id p = b_id b) new))
       \<and> ((submission_batches d' = submission_batches d \<and> farmer_payments d' = farmer_payments d)
           \<or> (\<exists>b new. submission_batches d' = submission_batches d @ [b]
                 \<and> farmer_payments d' = farmer_payments d @ new \<and> length new = length rows
                 \<and> list_all (\<lambda>p. p_batch_id p = b_id b) new))"
proof (cases "truthy n_clicks \<and> rows \<noteq> []")
  case False
  then have "\<not> truthy n_clicks \<or> rows = []" by simp
  from submit_to_admin_skip [OF this] assms have "d' = d" by simp
  with False show ?thesis by auto
next
  case True
  then have t: "truthy n_clicks" and ne: "rows \<noteq> []" by simp_all
  let ?fn = "case fn of None \<Rightarrow> ''uploaded_file'' | Some f \<Rightarrow> f"
  show ?thesis
  proof (cases "persist_raises fault rows")
    case raises: True
    then obtain e where "submit_transaction fault now (s_id sess) ?fn rows note d = Inl e"
      using submit_transaction_Inl_iff by blast
    from submit_to_admin_Inl [OF t ne this] assms
    have "d' = d" "out = (Database_error e, True, ''danger'', no_update, no_update)"
      by simp_all
    with raises show ?thesis by simp
  next
    case ok: False
    from submit_transaction_ok [OF ok] obtain d1 where
      tr: "submit_transaction fault now (s_id sess) ?fn rows note d = Inr d1"
      by blast
    let ?b = "new_batch now (s_id sess) ?fn rows note d"
    from submit_transaction_Inr [OF tr] obtain new where
      d1: "d1 = d\<lparr>submission_batches := submission_batches d @ [?b],
                    farmer_payments := farmer_payments d @ new\<rparr>"
      and len: "length new = length rows"
      and all: "list_all (\<lambda>p. p_batch_id p = next_id (map b_id (submission_batches d))
                               \<and> p_status p = ''pending'' \<and> p_failure_reason p = None) new"
      by blast
    from submit_to_admin_Inr [OF t ne tr] assms d1
    have tbls: "submission_batches d' = submission_batches d @ [?b]"
      "farmer_payments d' = farmer_payments d @ new"
      by simp_all
    from all have "list_all (\<lambda>p. p_batch_id p = b_id ?b) new"
      by (simp add: list_all_iff new_batch_def)
    with tbls len have "\<exists>b new. submission_batches d' = submission_batches d @ [b]
               \<and> farmer_payments d' = farmer_payments d @ new \<and> length new = length rows
               \<and> list_all (\<lambda>p. p_batch_id p = b_id b) new"
      by blast
    with ok show ?thesis by simp
  qed
qed

theorem submit_all_or_nothing_witness:
  "submit_to_admin (Fault_item_insert 2) 10 (Some 1) three_rows (Some ''farmers.csv'') kcu_session
     (Some ''March'') seed_db
   = ((Database_error OperationalError, True, ''danger'', no_update, no_update), seed_db)
   \<and> persist_raises (Fault_item_insert 2) three_rows
   \<and> truthy (Some 1) \<and> three_rows \<noteq> []
   \<and> (\<exists>e. (Database_error OperationalError, True, ''danger'', no_update :: unit upd, no_update :: nat upd)
           = (Database_error e, True, ''danger'', no_update, no_update))"
proof -
  note run = submit_fault
  have r: "persist_raises (Fault_item_insert 2) three_rows"
    unfolding persist_raises_def by (intro disjI2 exI [of _ 2]) (simp add: three_rows_def)
  have t: "truthy (Some 1)" by (simp add: truthy_def)
  have ne: "three_rows \<noteq> []" by (simp add: three_rows_def)
  from submit_all_or_nothing [OF run] run r t ne show ?thesis
    by blast
qed

text \<open>
  Claim C3 fails as stated: nothing validates the values. A submission of one row with
  empty name, bank and account and the amount \<open>-5\<close> is accepted and persisted.
\<close>

theorem submit_validation_counterexample:
  "bad_rows = [\<lparr>t_farmer_name = Some [], t_bank_name = Some [], t_account_number = Some [],
                t_amount = Some (- 5)\<rparr>]
   \<and> submit_to_admin No_fault 10 (Some 1) bad_rows (Some ''farmers.csv'') kcu_session None seed_db
     = ((Text ''Successfully submitted 1 records.'', True, ''success'', Set (), Set 10), db_bad)
   \<and> length (submission_batches seed_db) = 0 \<and> length (farmer_payments seed_db) = 0
   \<and> length (submission_batches db_bad) = 1 \<and> length (farmer_payments db_bad) = 1
   \<and> map p_amount (farmer_payments db_bad) = [- 5]"
proof (intro conjI)
  show "bad_rows = [\<lparr>t_farmer_name = Some [], t_bank_name = Some [], t_account_number = Some [],
                t_amount = Some (- 5)\<rparr>]"
    by (simp add: bad_rows_def table_row_of_def)
  show "submit_to_admin No_fault 10 (Some 1) bad_rows (Some ''farmers.csv'') kcu_session None seed_db
     = ((Text ''Successfully submitted 1 records.'', True, ''success'', Set (), Set 10), db_bad)"
    by (rule submit_bad)
  show "length (submission_batches seed_db) = 0" by (simp add: seed_db_def)
  show "length (farmer_payments seed_db) = 0" by (simp add: seed_db_def)
  show "length (submission_batches db_bad) = 1" by (simp add: db_bad_def)
  show "length (farmer_payments db_bad) = 1" by (simp add: db_bad_def)
  show "map p_amount (farmer_payments db_bad) = [- 5]" by (simp add: db_bad_def payment_of_def)
qed

text \<open>
  Claim C3, amended. An empty table makes the callback a silent no-op: the closed, empty
  alert and the store unchanged. A submission with a missing cell fails with a database
  error and persists nothing. Values are not validated otherwise: every non-empty
  submission without a missing cell is persisted, one batch row and one line item per
  row, whatever the sign of the amounts and however empty the strings.
\<close>

theorem submit_validation:
  "submit_to_admin fault now n_clicks [] fn sess note d
     = ((Text [], False, [], no_update, no_update), d)
   \<and> (truthy n_clicks \<and> rows \<noteq> [] \<and> \<not> list_all complete_row rows \<longrightarrow>
        (\<exists>e. submit_to_admin fault now n_clicks rows fn sess note d
              = ((Database_error e, True, ''danger'', no_update, no_update), d)))
   \<and> (truthy n_clicks \<and> rows \<noteq> [] \<and> list_all complete_row rows \<longrightarrow>
        length (submission_batches (snd (submit_to_admin No_fault now n_clicks rows fn sess note d)))
          = Suc (length (submission_batches d))
        \<and> length (farmer_payments (snd (submit_to_admin No_fault now n_clicks rows fn sess note d)))
          = length (farmer_payments d) + length rows)"
proof (intro conjI impI)
  show "submit_to_admin fault now n_clicks [] fn sess note d
     = ((Text [], False, [], no_update, no_update), d)"
    by (rule submit_to_admin_skip) simp
next
  assume h: "truthy n_clicks \<and> rows \<noteq> [] \<and> \<not> list_all complete_row rows"
  then have "persist_raises fault rows"
    by (auto simp: persist_raises_def list_all_length)
  then obtain e where "submit_transaction fault now (s_id sess)
      (case fn of None \<Rightarrow> ''uploaded_file'' | Some f \<Rightarrow> f) rows note d = Inl e"
    using submit_transaction_Inl_iff by blast
  with h submit_to_admin_Inl
  show "\<exists>e. submit_to_admin fault now n_clicks rows fn sess note d
              = ((Database_error e, True, ''danger'', no_update, no_update), d)"
    by blast
next
  assume h: "truthy n_clicks \<and> rows \<noteq> [] \<and> list_all complete_row rows"
  let ?run = "submit_to_admin No_fault now n_clicks rows fn sess note d"
  have run: "?run = (fst ?run, snd ?run)" by simp
  from h have np: "\<not> persist_raises No_fault rows"
    by (simp add: not_persist_raises)
  from submit_all_or_nothing [OF run] h np obtain b new where
    "submission_batches (snd ?run) = submission_batches d @ [b]"
    "farmer_payments (snd ?run) = farmer_payments d @ new" "length new = length rows"
    by blast
  then show "length (submission_batches (snd ?run)) = Suc (length (submission_batches d))"
    and "length (farmer_payments (snd ?run)) = length (farmer_payments d) + length rows"
    by simp_all
qed

theorem submit_validation_witness:
  "truthy (Some 1) \<and> null_rows \<noteq> [] \<and> \<not> list_all complete_row null_rows
   \<and> (\<exists>e. submit_to_admin No_fault 10 (Some 1) null_rows (Some ''farmers.csv'') kcu_session None seed_db
           = ((Database_error e, True, ''danger'', no_update, no_update), seed_db))
   \<and> bad_rows \<noteq> [] \<and> list_all complete_row bad_rows
   \<and> length (submission_batches (snd (submit_to_admin No_fault 10 (Some 1) bad_rows
         (Some ''farmers.csv'') kcu_session None seed_db)))
     = Suc (length (submission_batches seed_db))
   \<and> submit_to_admin No_fault 10 (Some 1) [] (Some ''farmers.csv'') kcu_session None seed_db
     = ((Text [], False, [], no_update, no_update), seed_db)"
proof -
  have t: "truthy (Some 1)" by (simp add: truthy_def)
  have n1: "null_rows \<noteq> []" by (simp add: null_rows_def)
  have n2: "\<not> list_all complete_row null_rows"
    by (simp add: null_rows_def table_row_of_def complete_row_def)
  have b1: "bad_rows \<noteq> []" by (simp add: bad_rows_def)
  have b2: "list_all complete_row bad_rows"
    by (simp add: bad_rows_def table_row_of_def complete_row_def)
  from submit_validation [of No_fault 10 "Some 1" "Some ''farmers.csv''" kcu_session None seed_db null_rows]
    submit_validation [of No_fault 10 "Some 1" "Some ''farmers.csv''" kcu_session None seed_db bad_rows]
    t n1 n2 b1 b2
  show ?thesis by blast
qed

section \<open>Review notes\<close>

text \<open>
  Claim C9 fails as stated: for a batch id that is not in the store the callback raises
  nothing and reports success.
\<close>

theorem save_admin_note_counterexample:
  "map b_id (submission_batches db_pending) = [1]
   \<and> save_admin_note [Some 1] 99 [''Please resend''] db_pending
     = (Inr (True, ''Response saved successfully!'', ''success''), db_pending)"
  by (simp add: save_admin_note_def truthy_def db_pending_def batch1_def)

text \<open>
  Claim C9, amended. Saving a note overwrites the admin note of the batch with the given
  id and changes nothing else: status, total amount, record count and every other column
  of every batch, the other batches, and the other four tables stay as they were. For a
  batch id that is not in the store the callback reports success all the same and
  leaves the store unchanged.
\<close>

theorem save_admin_note_effect:
  assumes "list_ex truthy n_clicks"
    and "save_admin_note n_clicks bid (note_value # notes) d = (r, d')"
  shows "r = Inr (True, ''Response saved successfully!'', ''success'')
       \<and> list_all (\<lambda>b. b_id b = bid \<longrightarrow> b_admin_notes b = Some note_value) (submission_batches d')
       \<and> map (\<lambda>b. b\<lparr>b_admin_notes := None\<rparr>) (submission_batches d')
         = map (\<lambda>b. b\<lparr>b_admin_notes := None\<rparr>) (submission_batches d)
       \<and> map b_status (submission_batches d') = map b_status (submission_batches d)
       \<and> map b_total_amount (submission_batches d') = map b_total_amount (submission_batches d)
       \<and> map b_record_count (submission_batches d') = map b_record_count (submission_batches d)
       \<and> filter (\<lambda>b. b_id b \<noteq> bid) (submission_batches d')
         = filter (\<lambda>b. b_id b \<noteq> bid) (submission_batches d)
       \<and> users d' = users d \<and> farmer_payments d' = farmer_payments d
       \<and> payment_history d' = payment_history d \<and> activity_logs d' = activity_logs d
       \<and> (bid \<notin> set (map b_id (submission_batches d)) \<longrightarrow> d' = d)"
proof -
  let ?f = "\<lambda>b. if b_id b = bid then b\<lparr>b_admin_notes := Some note_value\<rparr> else b"
  from assms have r: "r = Inr (True, ''Response saved successfully!'', ''success'')"
    and d': "d' = d\<lparr>submission_batches := map ?f (submission_batches d)\<rparr>"
    by (simp_all add: save_admin_note_def)
  have bs: "submission_batches d' = map ?f (submission_batches d)"
    by (simp add: d')
  have "d' = d" if "bid \<notin> set (map b_id (submission_batches d))"
  proof -
    from that have "map ?f (submission_batches d) = submission_batches d"
      by (intro map_idI) auto
    then show ?thesis by (simp add: d')
  qed
  moreover have "list_all (\<lambda>b. b_id b = bid \<longrightarrow> b_admin_notes b = Some note_value) (submission_batches d')"
    unfolding bs by (rule set_note_all)
  moreover have "map (\<lambda>b. b\<lparr>b_admin_notes := None\<rparr>) (submission_batches d')
         = map (\<lambda>b. b\<lparr>b_admin_notes := None\<rparr>) (submission_batches d)"
    unfolding bs by (simp add: comp_def)
  moreover have "map b_status (submission_batches d') = map b_status (submission_batches d)"
    "map b_total_amount (submission_batches d') = map b_total_amount (submission_batches d)"
    "map b_record_count (submission_batches d') = map b_record_count (submission_batches d)"
    unfolding bs by (simp_all add: comp_def)
  moreover have "filter (\<lambda>b. b_id b \<noteq> bid) (submission_batches d')
         = filter (\<lambda>b. b_id b \<noteq> bid) (submission_batches d)"
    unfolding bs by (rule set_note_others)
  ultimately show ?thesis
    using r by (simp add: d')
qed

theorem save_admin_note_effect_witness:
  "list_ex truthy [Some 1]
   \<and> fst (save_admin_note [Some 1] 1 [''Checked''] db_pending)
     = Inr (True, ''Response saved successfully!'', ''success'')
   \<and> map b_admin_notes (submission_batches (snd (save_admin_note [Some 1] 1 [''Checked''] db_pending)))
     = [Some ''Checked'']
   \<and> map b_status (submission_batches (snd (save_admin_note [Some 1] 1 [''Checked''] db_pending)))
     = map b_status (submission_batches db_pending)
   \<and> farmer_payments (snd (save_admin_note [Some 1] 1 [''Checked''] db_pending))
     = farmer_payments db_pending
   \<and> 99 \<notin> set (map b_id (submission_batches db_pending))
   \<and> snd (save_admin_note [Some 1] 99 [''Checked''] db_pending) = db_pending"
proof -
  have c: "list_ex truthy [Some 1]" by (simp add: truthy_def)
  let ?run = "save_admin_note [Some 1] 1 [''Checked''] db_pending"
  let ?miss = "save_admin_note [Some 1] 99 [''Checked''] db_pending"
  have run: "?run = (fst ?run, snd ?run)" by simp
  have miss: "?miss = (fst ?miss, snd ?miss)" by simp
  have nts: "map b_admin_notes (submission_batches (snd ?run)) = [Some ''Checked'']"
    by (simp add: save_admin_note_def truthy_def db_pending_def batch1_def)
  have absent: "99 \<notin> set (map b_id (submission_batches db_pending))"
    by (simp add: db_pending_def batch1_def)
  from save_admin_note_effect [OF c run] save_admin_note_effect [OF c miss] c nts absent
  show ?thesis by blast
qed

section \<open>Notification\<close>

text \<open>
  Claim C8. The notification emitter is total on settlement results: for every result it
  yields exactly one notification (an open toast with the fixed header), whose severity
  is \<open>warning\<close> when the failed count is positive and \<open>success\<close> otherwise; it has no
  failing branch.
\<close>

theorem show_ipn_toast_total:
  "\<exists>body. show_ipn_toast (Some r) =
     (True, ''IPN: Transaction Complete'', body,
      if ipn_failed r > 0 then ''warning'' else ''success'')"
  by (simp add: show_ipn_toast_def Let_def)

end
